theory Spec2Isabelle
  imports Complex_Main "HOL-Library.Log_Nat"
begin

section \<open>JavaScript values used by the orchestrator\<close>

text \<open>
  \<^verbatim>\<open>bin/app.ts\<close> reads every setting from \<^verbatim>\<open>process.env\<close>, a mapping from
  variable names to strings; a variable that is not set reads as \<^verbatim>\<open>undefined\<close>.
  Strings are lists of 8-bit characters; the settings are taken to be ASCII text,
  as a \<^verbatim>\<open>.env\<close> file holds it.
\<close>

type_synonym process_env = "string \<rightharpoonup> string"

datatype error = TypeError

text \<open>
  The idiom \<^verbatim>\<open>process.env.X || d\<close> for a string default \<^verbatim>\<open>d\<close>: both
  \<^verbatim>\<open>undefined\<close> and the empty string are falsy.
\<close>

definition str_or :: "string option \<Rightarrow> string \<Rightarrow> string" where
  "str_or v d = (case v of None \<Rightarrow> d | Some s \<Rightarrow> if s = [] then d else s)"

text \<open>The idiom \<^verbatim>\<open>process.env.X || undefined\<close>.\<close>

definition str_or_undefined :: "string option \<Rightarrow> string option" where
  "str_or_undefined v = (case v of None \<Rightarrow> None | Some s \<Rightarrow> if s = [] then None else Some s)"

text \<open>Truthiness of an optional string, as the conditional operator tests it.\<close>

definition truthy_str :: "string option \<Rightarrow> bool" where
  "truthy_str v = (case v of None \<Rightarrow> False | Some s \<Rightarrow> s \<noteq> [])"

subsection \<open>Numbers\<close>

text \<open>
  A JavaScript number is an IEEE 754 binary64 value. \<open>Fin q\<close> is the finite double whose
  value is the rational \<open>q\<close>; the two zeros are both \<open>Fin 0\<close> (they are equally falsy,
  which is all the orchestrator observes of them).
\<close>

datatype jsnum = NaN | PosInfinity | NegInfinity | Fin rat

definition pow2 :: "int \<Rightarrow> rat" where
  "pow2 e = (if 0 \<le> e then 2 ^ nat e else 1 / 2 ^ nat (- e))"

definition pow10 :: "int \<Rightarrow> rat" where
  "pow10 e = (if 0 \<le> e then 10 ^ nat e else 1 / 10 ^ nat (- e))"

text \<open>\<open>ilog2 a\<close> is the integer \<open>e\<close> with \<open>2^e \<le> a < 2^(e+1)\<close>, for a positive rational.\<close>

definition ilog2 :: "rat \<Rightarrow> int" where
  "ilog2 a = (let (n, d) = quotient_of a; e = bitlen n - bitlen d
              in if pow2 e \<le> a then e else e - 1)"

definition round_ties_even :: "rat \<Rightarrow> int" where
  "round_ties_even x =
     (let f = \<lfloor>x\<rfloor>; r = x - of_int f
      in if r < 1 / 2 then f else if 1 / 2 < r then f + 1
         else if even f then f else f + 1)"

text \<open>
  Rounding a mathematical value to the nearest double, ties to even: 53 significant
  bits, exponents from -1022 (below that the spacing stays \<open>2^-1074\<close>), and infinity
  from \<open>2^1024\<close> on.
\<close>

definition RoundMVResult :: "rat \<Rightarrow> jsnum" where
  "RoundMVResult q =
     (if q = 0 then Fin 0
      else let a = \<bar>q\<bar>;
               e = max (ilog2 a) (- 1022);
               u = pow2 (e - 52);
               r = of_int (round_ties_even (a / u)) * u
           in if 2 ^ 1024 \<le> r then (if 0 < q then PosInfinity else NegInfinity)
              else Fin (if 0 < q then r else - r))"

text \<open>
  \<^verbatim>\<open>Number(s)\<close> on a string follows the grammar of \<^verbatim>\<open>StringNumericLiteral\<close>: white
  space (here the ASCII white space and line terminators) around an optional literal,
  which is a signed decimal literal (digits, an optional fraction and exponent, or
  \<^verbatim>\<open>Infinity\<close>) or an unsigned binary, octal or hexadecimal integer. Anything else
  is \<open>NaN\<close>; the empty literal is 0. The value of the literal is rounded to a double.
\<close>

definition is_ws :: "char \<Rightarrow> bool" where
  "is_ws c = (of_char c \<in> {9, 10, 11, 12, 13, 32 :: nat})"

definition trim :: "string \<Rightarrow> string" where
  "trim s = rev (dropWhile is_ws (rev (dropWhile is_ws s)))"

definition digit_of :: "nat \<Rightarrow> char \<Rightarrow> nat option" where
  "digit_of base c =
     (let n = (of_char c :: nat);
          v = (if 48 \<le> n \<and> n \<le> 57 then Some (n - 48)
               else if 97 \<le> n \<and> n \<le> 102 then Some (n - 87)
               else if 65 \<le> n \<and> n \<le> 70 then Some (n - 55)
               else None)
      in case v of None \<Rightarrow> None | Some d \<Rightarrow> if d < base then Some d else None)"

definition is_digit :: "char \<Rightarrow> bool" where
  "is_digit c = (digit_of 10 c \<noteq> None)"

text \<open>The value of a string of digits in a base, most significant first; \<open>None\<close>
  when a character is not a digit of the base.\<close>

fun digits_from :: "nat \<Rightarrow> nat \<Rightarrow> string \<Rightarrow> nat option" where
  "digits_from base acc [] = Some acc"
| "digits_from base acc (c # cs) =
     (case digit_of base c of
        None \<Rightarrow> None
      | Some d \<Rightarrow> digits_from base (acc * base + d) cs)"

definition digits_val :: "nat \<Rightarrow> string \<Rightarrow> nat option" where
  "digits_val base s = (if s = [] then None else digits_from base 0 s)"

text \<open>The digits of a decimal literal's integer or fraction part: possibly none.\<close>

definition dec_val :: "string \<Rightarrow> nat" where
  "dec_val s = (case digits_from 10 0 s of None \<Rightarrow> 0 | Some n \<Rightarrow> n)"

text \<open>The exponent part, which must reach the end of the literal; none is exponent 0.\<close>

definition ExponentPart :: "string \<Rightarrow> int option" where
  "ExponentPart r =
     (case r of
        [] \<Rightarrow> Some 0
      | c # t \<Rightarrow>
          if c = CHR ''e'' \<or> c = CHR ''E'' then
            (case t of
               [] \<Rightarrow> None
             | d # u \<Rightarrow>
                 if d = CHR ''+'' then map_option int (digits_val 10 u)
                 else if d = CHR ''-'' then map_option (\<lambda>n. - int n) (digits_val 10 u)
                 else map_option int (digits_val 10 t))
          else None)"

datatype mv = MV rat | MVInfinity

definition StrUnsignedDecimalLiteral :: "string \<Rightarrow> mv option" where
  "StrUnsignedDecimalLiteral s =
     (if s = ''Infinity'' then Some MVInfinity
      else let ip = takeWhile is_digit s; r1 = dropWhile is_digit s
           in case r1 of
                [] \<Rightarrow> (if ip = [] then None else Some (MV (of_nat (dec_val ip))))
              | c # r2 \<Rightarrow>
                  (if c = CHR ''.'' then
                     (let fp = takeWhile is_digit r2; r3 = dropWhile is_digit r2
                      in if ip = [] \<and> fp = [] then None
                         else (case ExponentPart r3 of
                                 None \<Rightarrow> None
                               | Some e \<Rightarrow>
                                   Some (MV ((of_nat (dec_val ip)
                                              + of_nat (dec_val fp) / 10 ^ length fp)
                                             * pow10 e))))
                   else if ip = [] then None
                   else (case ExponentPart r1 of
                           None \<Rightarrow> None
                         | Some e \<Rightarrow> Some (MV (of_nat (dec_val ip) * pow10 e)))))"

definition NonDecimalIntegerLiteral :: "string \<Rightarrow> nat option" where
  "NonDecimalIntegerLiteral s =
     (case s of
        c0 # c1 # ds \<Rightarrow>
          if c0 = CHR ''0'' then
            (if c1 = CHR ''b'' \<or> c1 = CHR ''B'' then digits_val 2 ds
             else if c1 = CHR ''o'' \<or> c1 = CHR ''O'' then digits_val 8 ds
             else if c1 = CHR ''x'' \<or> c1 = CHR ''X'' then digits_val 16 ds
             else None)
          else None
      | _ \<Rightarrow> None)"

definition signed_mv :: "bool \<Rightarrow> mv option \<Rightarrow> jsnum" where
  "signed_mv neg m =
     (case m of
        None \<Rightarrow> NaN
      | Some MVInfinity \<Rightarrow> (if neg then NegInfinity else PosInfinity)
      | Some (MV q) \<Rightarrow> RoundMVResult (if neg then - q else q))"

definition StringToNumber :: "string \<Rightarrow> jsnum" where
  "StringToNumber s =
     (let t = trim s
      in if t = [] then Fin 0
         else case NonDecimalIntegerLiteral t of
                Some n \<Rightarrow> RoundMVResult (of_nat n)
              | None \<Rightarrow>
                  (case t of
                     [] \<Rightarrow> NaN
                   | c # u \<Rightarrow>
                       if c = CHR ''+'' then signed_mv False (StrUnsignedDecimalLiteral u)
                       else if c = CHR ''-'' then signed_mv True (StrUnsignedDecimalLiteral u)
                       else signed_mv False (StrUnsignedDecimalLiteral t)))"

text \<open>\<^verbatim>\<open>Number(process.env.X)\<close>: \<^verbatim>\<open>undefined\<close> converts to \<open>NaN\<close>.\<close>

definition Number_js :: "string option \<Rightarrow> jsnum" where
  "Number_js v = (case v of None \<Rightarrow> NaN | Some s \<Rightarrow> StringToNumber s)"

text \<open>The idiom \<^verbatim>\<open>Number(process.env.X) || d\<close>: \<open>NaN\<close> and zero are falsy.\<close>

definition truthy_num :: "jsnum \<Rightarrow> bool" where
  "truthy_num x = (x \<noteq> NaN \<and> x \<noteq> Fin 0)"

definition num_or :: "jsnum \<Rightarrow> rat \<Rightarrow> jsnum" where
  "num_or x d = (if truthy_num x then x else Fin d)"



subsection \<open>Strings\<close>

text \<open>\<^verbatim>\<open>s.split('.')\<close>: the pieces between the separators, never an empty array.\<close>

fun split_on :: "char \<Rightarrow> string \<Rightarrow> string list" where
  "split_on sep [] = [[]]"
| "split_on sep (c # cs) =
     (if c = sep then [] # split_on sep cs
      else (case split_on sep cs of
              [] \<Rightarrow> [[c]]
            | p # ps \<Rightarrow> (c # p) # ps))"

text \<open>Indexing an array: \<^verbatim>\<open>xs[i]\<close> is \<^verbatim>\<open>undefined\<close> past the end.\<close>

definition index :: "'a list \<Rightarrow> nat \<Rightarrow> 'a option" where
  "index xs i = (if i < length xs then Some (xs ! i) else None)"

text \<open>
  Case conversion, on the ASCII letters: an upper-case letter and its lower-case letter
  differ in the bit of weight 32.
\<close>

definition toUpperCase :: "string \<Rightarrow> string" where
  "toUpperCase s =
     map (\<lambda>c. if 97 \<le> (of_char c :: nat) \<and> (of_char c :: nat) \<le> 122
              then (case c of Char b0 b1 b2 b3 b4 b5 b6 b7 \<Rightarrow> Char b0 b1 b2 b3 b4 False b6 b7)
              else c) s"

definition toLowerCase :: "string \<Rightarrow> string" where
  "toLowerCase s =
     map (\<lambda>c. if 65 \<le> (of_char c :: nat) \<and> (of_char c :: nat) \<le> 90
              then (case c of Char b0 b1 b2 b3 b4 b5 b6 b7 \<Rightarrow> Char b0 b1 b2 b3 b4 True b6 b7)
              else c) s"

fun includes_str :: "string \<Rightarrow> string \<Rightarrow> bool" where
  "includes_str [] sub = (sub = [])"
| "includes_str (c # cs) sub = (take (length sub) (c # cs) = sub \<or> includes_str cs sub)"

text \<open>A value inside a template literal: \<^verbatim>\<open>undefined\<close> prints as its name.\<close>

definition template :: "string option \<Rightarrow> string" where
  "template v = (case v of None \<Rightarrow> ''undefined'' | Some s \<Rightarrow> s)"


section \<open>The construct tree\<close>

text \<open>
  The stacks build a tree of constructs under the \<^verbatim>\<open>cdk.App\<close>. A construct is
  addressed by its path: the stack's id, then the ids given to the constructors. The
  library's constructs are opaque here: a constructor records the properties it is given
  (descriptions and other cosmetic properties are left out), and the library's own
  validation and synthesis are not part of the model. A value the cloud provider fills
  in at deployment (an identifier, a DNS name, a field of a generated secret) is a
  token: a reference to the construct and the attribute.
\<close>

type_synonym path = "string list"

datatype cdk_string =
    Lit string
  | Attr path string
  | SecretJson path string
  | Concat cdk_string cdk_string

text \<open>
  The six components of the specification are the six stack classes:
  Network is \<^verbatim>\<open>NetworkStack\<close>, Registry \<^verbatim>\<open>EcrStack\<close>, Database \<^verbatim>\<open>DatabaseStack\<close>,
  Identity \<^verbatim>\<open>AuthStack\<close>, Compute \<^verbatim>\<open>EcsStack\<close> and Edge \<^verbatim>\<open>FrontendStack\<close>.
\<close>

datatype component = Network | Registry | Database | Identity | Compute | Edge

datatype subnet_type = PUBLIC | PRIVATE_WITH_EGRESS | PRIVATE_ISOLATED

record subnet_configuration =
  cidrMask :: nat
  subnet_name :: string
  subnetType :: subnet_type

record vpc_props =
  vpc_cidr :: string
  vpc_maxAzs :: jsnum
  subnetConfiguration :: "subnet_configuration list"
  natGateways :: jsnum

datatype peer = PeerSecurityGroup path | PeerPrefixList string

record sg_rule =
  rule_peer :: peer
  rule_tcp_port :: jsnum

record security_group =
  sg_vpc :: path
  allowAllOutbound :: bool
  ingress_rules :: "sg_rule list"
  egress_rules :: "sg_rule list"

record secret_props =
  secretStringTemplate :: "(string \<times> string) list"
  generateStringKey :: string
  excludePunctuation :: bool
  includeSpace :: bool

datatype db_engine = postgres_VER_13_4 | auroraMysql_VER_3_03_0 | mysql_VER_8_0_28

record database_instance =
  engine :: db_engine
  db_instance_vpc :: path
  db_subnetGroupName :: string
  instanceType :: "string option \<times> string option"
  allocatedStorage :: nat
  storageEncrypted :: bool
  storageEncryptionKey :: path
  credentials :: path
  multiAz :: bool
  db_securityGroups :: "path list"
  databaseName :: string

datatype grant = GrantRead path

record role_props =
  assumedBy :: string
  grants :: "grant list"

record task_definition =
  td_memoryLimitMiB :: jsnum
  td_cpu :: jsnum
  taskRole :: path

datatype container_image = fromRegistry string | fromEcrRepository_context string

record container_definition =
  image :: container_image
  containerName :: string
  memoryLimitMiB :: jsnum
  cpu :: jsnum
  essential :: bool
  environment :: "(string \<times> cdk_string) list"
  secrets :: "(string \<times> path \<times> string) list"
  portMappings :: "jsnum list"

record load_balancer =
  alb_vpc :: path
  internetFacing :: bool
  alb_securityGroup :: path
  loadBalancerName :: string

record listener_props =
  listener_port :: nat
  certificates :: "string list"
  listener_open :: bool
  listener_targetGroups :: "path list"

record target_group =
  tg_vpc :: path
  tg_port :: jsnum
  healthCheck_path :: string
  tg_targets :: "path list"

record fargate_service =
  cluster :: path
  taskDefinition :: path
  service_desiredCount :: jsnum
  service_securityGroups :: "path list"
  assignPublicIp :: bool
  service_subnetGroupName :: string

datatype origin_protocol_policy = HTTPS_ONLY | HTTP_ONLY

record distribution =
  s3_origin :: path
  alb_origin :: cdk_string
  alb_protocolPolicy :: origin_protocol_policy
  webAclId :: cdk_string
  domainNames :: "string list option"
  certificate :: "string option"

datatype construct =
    Vpc vpc_props
  | Repository string
  | SecurityGroup security_group
  | Key string
  | Secret secret_props
  | DatabaseInstance database_instance
  | UserPool string
  | UserPoolClient path string
  | Cluster path string
  | Role role_props
  | FargateTaskDefinition task_definition
  | ContainerDefinition container_definition
  | ApplicationLoadBalancer load_balancer
  | ApplicationListener listener_props
  | ApplicationTargetGroup target_group
  | FargateService fargate_service
  | Bucket string
  | CfnOriginAccessControl string
  | CfnWebACL string
  | Distribution distribution
  | CfnOutput cdk_string

record stack_env =
  account :: string
  region :: string

record stack_node =
  stack_component :: component
  stack_id :: string
  stack_props_env :: stack_env

text \<open>
  The app: its stacks in the order they were instantiated, the constructs by path, and
  the deploy-after edges \<^verbatim>\<open>addDependency\<close> registered, \<open>(a, b)\<close> for
  \<^verbatim>\<open>a.addDependency(b)\<close>: \<open>a\<close> is deployed after \<open>b\<close>.
\<close>

record cdk_app =
  stacks :: "stack_node list"
  constructs :: "path \<rightharpoonup> construct"
  dependencies :: "(component \<times> component) list"

definition new_App :: cdk_app where
  "new_App = \<lparr>stacks = [], constructs = Map.empty, dependencies = []\<rparr>"

definition new_Stack :: "component \<Rightarrow> string \<Rightarrow> stack_env \<Rightarrow> cdk_app \<Rightarrow> cdk_app" where
  "new_Stack c sid e st =
     st\<lparr>stacks := stacks st @ [\<lparr>stack_component = c, stack_id = sid, stack_props_env = e\<rparr>]\<rparr>"

definition add_construct :: "path \<Rightarrow> construct \<Rightarrow> cdk_app \<Rightarrow> cdk_app" where
  "add_construct p c st = st\<lparr>constructs := (constructs st)(p \<mapsto> c)\<rparr>"

definition addDependency :: "component \<Rightarrow> component \<Rightarrow> cdk_app \<Rightarrow> cdk_app" where
  "addDependency a b st = st\<lparr>dependencies := dependencies st @ [(a, b)]\<rparr>"

text \<open>
  The methods that change a construct after it was made. They are called on an object
  reference, here the path of a construct of the right kind; the rules of a security
  group are recorded as the code declares them.
\<close>

definition addIngressRule :: "path \<Rightarrow> peer \<Rightarrow> jsnum \<Rightarrow> cdk_app \<Rightarrow> cdk_app" where
  "addIngressRule sg p port st =
     (case constructs st sg of
        Some (SecurityGroup g) \<Rightarrow>
          add_construct sg
            (SecurityGroup (g\<lparr>ingress_rules :=
               ingress_rules g @ [\<lparr>rule_peer = p, rule_tcp_port = port\<rparr>]\<rparr>)) st
      | _ \<Rightarrow> st)"

definition addEgressRule :: "path \<Rightarrow> peer \<Rightarrow> jsnum \<Rightarrow> cdk_app \<Rightarrow> cdk_app" where
  "addEgressRule sg p port st =
     (case constructs st sg of
        Some (SecurityGroup g) \<Rightarrow>
          add_construct sg
            (SecurityGroup (g\<lparr>egress_rules :=
               egress_rules g @ [\<lparr>rule_peer = p, rule_tcp_port = port\<rparr>]\<rparr>)) st
      | _ \<Rightarrow> st)"

text \<open>\<^verbatim>\<open>secret.grantRead(role)\<close> adds the permission to the role's policy.\<close>

definition grantRead :: "path \<Rightarrow> path \<Rightarrow> cdk_app \<Rightarrow> cdk_app" where
  "grantRead sec r st =
     (case constructs st r of
        Some (Role ro) \<Rightarrow> add_construct r (Role (ro\<lparr>grants := grants ro @ [GrantRead sec]\<rparr>)) st
      | _ \<Rightarrow> st)"

definition addPortMappings :: "path \<Rightarrow> jsnum \<Rightarrow> cdk_app \<Rightarrow> cdk_app" where
  "addPortMappings c port st =
     (case constructs st c of
        Some (ContainerDefinition d) \<Rightarrow>
          add_construct c (ContainerDefinition (d\<lparr>portMappings := portMappings d @ [port]\<rparr>)) st
      | _ \<Rightarrow> st)"

definition addTargetGroups :: "path \<Rightarrow> path \<Rightarrow> cdk_app \<Rightarrow> cdk_app" where
  "addTargetGroups l tg st =
     (case constructs st l of
        Some (ApplicationListener d) \<Rightarrow>
          add_construct l
            (ApplicationListener (d\<lparr>listener_targetGroups := listener_targetGroups d @ [tg]\<rparr>)) st
      | _ \<Rightarrow> st)"

definition attachToApplicationTargetGroup :: "path \<Rightarrow> path \<Rightarrow> cdk_app \<Rightarrow> cdk_app" where
  "attachToApplicationTargetGroup svc tg st =
     (case constructs st tg of
        Some (ApplicationTargetGroup d) \<Rightarrow>
          add_construct tg (ApplicationTargetGroup (d\<lparr>tg_targets := tg_targets d @ [svc]\<rparr>)) st
      | _ \<Rightarrow> st)"

text \<open>An object reference is truthy.\<close>

definition truthy_obj :: "path \<Rightarrow> bool" where
  "truthy_obj p = True"


section \<open>The stacks\<close>

text \<open>
  Each props interface extends \<^verbatim>\<open>cdk.StackProps\<close> (of which only \<^verbatim>\<open>env\<close> is used)
  and declares \<^verbatim>\<open>projectName\<close>. A field that two interfaces share by name carries the
  interface as a suffix here. A handle to another stack's construct is its path.
\<close>

record StackProps =
  env :: stack_env
  projectName :: string

subsection \<open>NetworkStack\<close>

record NetworkStackProps = StackProps +
  cidr :: string
  maxAzs :: jsnum

record NetworkStack =
  vpc :: path

text \<open>
  The VPC endpoints of the network stack and their security group are left out: their
  rules are computed from the subnets the library allocates.
\<close>

definition new_NetworkStack ::
  "cdk_app \<Rightarrow> string \<Rightarrow> NetworkStackProps \<Rightarrow> NetworkStack \<times> cdk_app" where
  "new_NetworkStack st sid props =
     (let st1 = new_Stack Network sid (env props) st;
          this_vpc = [sid, projectName props @ ''-VPC''];
          st2 = add_construct this_vpc
                  (Vpc \<lparr>vpc_cidr = cidr props,
                        vpc_maxAzs = maxAzs props,
                        subnetConfiguration =
                          [\<lparr>cidrMask = 24, subnet_name = ''Public'', subnetType = PUBLIC\<rparr>,
                           \<lparr>cidrMask = 24, subnet_name = ''Application'',
                            subnetType = PRIVATE_WITH_EGRESS\<rparr>,
                           \<lparr>cidrMask = 24, subnet_name = ''Database'',
                            subnetType = PRIVATE_ISOLATED\<rparr>],
                        natGateways = maxAzs props\<rparr>) st1
      in (\<lparr>vpc = this_vpc\<rparr>, st2))"

subsection \<open>EcrStack\<close>

record EcrStackProps = StackProps +
  repoName :: string

record EcrStack =
  repository :: path

definition new_EcrStack ::
  "cdk_app \<Rightarrow> string \<Rightarrow> EcrStackProps \<Rightarrow> EcrStack \<times> cdk_app" where
  "new_EcrStack st sid props =
     (let st1 = new_Stack Registry sid (env props) st;
          this_repository = [sid, projectName props @ ''-EcrRepo''];
          st2 = add_construct this_repository (Repository (repoName props)) st1;
          st3 = add_construct [sid, ''EcrRepoUri'']
                  (CfnOutput (Attr this_repository ''repositoryUri'')) st2
      in (\<lparr>repository = this_repository\<rparr>, st3))"

subsection \<open>DatabaseStack\<close>

record DatabaseStackProps = StackProps +
  vpc_DatabaseStackProps :: path
  dbName :: string
  dbEngine :: string
  dbEngineVersion :: string
  dbInstanceClass :: string
  dbUsername :: string

record DatabaseStack =
  dbSecurityGroup :: path
  dbSecret :: path
  dbInstance :: path

text \<open>
  The enumerations \<^verbatim>\<open>ec2.InstanceClass\<close> and \<^verbatim>\<open>ec2.InstanceSize\<close> belong to the
  library: objects from member names to values, parameters of the model.
\<close>

record ec2_enums =
  InstanceClass :: "string \<rightharpoonup> string"
  InstanceSize :: "string \<rightharpoonup> string"

text \<open>\<^verbatim>\<open>Enum[key] || Enum.MEMBER\<close>: a missing key reads as \<^verbatim>\<open>undefined\<close>.\<close>

definition enum_or :: "(string \<rightharpoonup> string) \<Rightarrow> string \<Rightarrow> string \<Rightarrow> string option" where
  "enum_or enum key member =
     (case enum key of
        None \<Rightarrow> enum member
      | Some v \<Rightarrow> if v = [] then enum member else Some v)"

text \<open>
  The arguments of \<^verbatim>\<open>ec2.InstanceType.of\<close>: \<^verbatim>\<open>dbInstanceClass.split('.')[i].toUpperCase()\<close>
  is a method call on \<^verbatim>\<open>undefined\<close>, a \<^verbatim>\<open>TypeError\<close>, when the string has no piece
  \<open>i\<close>.
\<close>

definition instanceType_of ::
  "ec2_enums \<Rightarrow> string \<Rightarrow> error + (string option \<times> string option)" where
  "instanceType_of lib cls =
     (case index (split_on CHR ''.'' cls) 1 of
        None \<Rightarrow> Inl TypeError
      | Some p1 \<Rightarrow>
          (let c = enum_or (InstanceClass lib) (toUpperCase p1) ''T3''
           in case index (split_on CHR ''.'' cls) 2 of
                None \<Rightarrow> Inl TypeError
              | Some p2 \<Rightarrow> Inr (c, enum_or (InstanceSize lib) (toUpperCase p2) ''MICRO'')))"

definition engine_of :: "string \<Rightarrow> db_engine" where
  "engine_of e =
     (if includes_str (toLowerCase e) ''postgres'' then postgres_VER_13_4
      else if includes_str (toLowerCase e) ''aurora'' then auroraMysql_VER_3_03_0
      else mysql_VER_8_0_28)"

definition new_DatabaseStack ::
  "ec2_enums \<Rightarrow> cdk_app \<Rightarrow> string \<Rightarrow> DatabaseStackProps \<Rightarrow> error + DatabaseStack \<times> cdk_app"
  where
  "new_DatabaseStack lib st sid props =
     (let st1 = new_Stack Database sid (env props) st;
          this_dbSecurityGroup = [sid, projectName props @ ''-DB-SG''];
          st2 = add_construct this_dbSecurityGroup
                  (SecurityGroup \<lparr>sg_vpc = vpc_DatabaseStackProps props, allowAllOutbound = True,
                                  ingress_rules = [], egress_rules = []\<rparr>) st1;
          kmsKey = [sid, projectName props @ ''-DB-KMSKey''];
          st3 = add_construct kmsKey
                  (Key (toLowerCase (projectName props) @ ''-rds-key'')) st2;
          this_dbSecret = [sid, projectName props @ ''-DBCredentials''];
          st4 = add_construct this_dbSecret
                  (Secret \<lparr>secretStringTemplate = [(''username'', dbUsername props)],
                           generateStringKey = ''password'',
                           excludePunctuation = True, includeSpace = False\<rparr>) st3;
          engine = engine_of (dbEngine props)
      in case instanceType_of lib (dbInstanceClass props) of
           Inl e \<Rightarrow> Inl e
         | Inr ty \<Rightarrow>
             (let this_dbInstance = [sid, projectName props @ ''-Database''];
                  st5 = add_construct this_dbInstance
                          (DatabaseInstance
                             \<lparr>engine = engine,
                              db_instance_vpc = vpc_DatabaseStackProps props,
                              db_subnetGroupName = ''Database'',
                              instanceType = ty,
                              allocatedStorage = 20,
                              storageEncrypted = True,
                              storageEncryptionKey = kmsKey,
                              credentials = this_dbSecret,
                              multiAz = False,
                              db_securityGroups = [this_dbSecurityGroup],
                              databaseName = dbName props\<rparr>) st4;
                  st6 = add_construct [sid, ''DatabaseEndpoint'']
                          (CfnOutput (Attr this_dbInstance ''instanceEndpoint.socketAddress'')) st5;
                  st7 = add_construct [sid, ''DatabaseSecretName'']
                          (CfnOutput (Attr this_dbSecret ''secretName'')) st6
              in Inr (\<lparr>dbSecurityGroup = this_dbSecurityGroup, dbSecret = this_dbSecret,
                       dbInstance = this_dbInstance\<rparr>, st7)))"

subsection \<open>AuthStack\<close>

record AuthStackProps = StackProps +
  userPoolName :: string
  webClientName :: string

record AuthStack =
  userPool :: path
  userPoolClient :: path

definition new_AuthStack ::
  "cdk_app \<Rightarrow> string \<Rightarrow> AuthStackProps \<Rightarrow> AuthStack \<times> cdk_app" where
  "new_AuthStack st sid props =
     (let st1 = new_Stack Identity sid (env props) st;
          this_userPool = [sid, ''UserPool''];
          st2 = add_construct this_userPool (UserPool (userPoolName props)) st1;
          this_userPoolClient = [sid, ''UserPoolClient''];
          st3 = add_construct this_userPoolClient
                  (UserPoolClient this_userPool (webClientName props)) st2;
          st4 = add_construct [sid, ''CognitoUserPoolId'']
                  (CfnOutput (Attr this_userPool ''userPoolId'')) st3;
          st5 = add_construct [sid, ''CognitoUserPoolClientId'']
                  (CfnOutput (Attr this_userPoolClient ''userPoolClientId'')) st4
      in (\<lparr>userPool = this_userPool, userPoolClient = this_userPoolClient\<rparr>, st5))"

subsection \<open>EcsStack\<close>

record EcsStackProps = StackProps +
  vpc_EcsStackProps :: path
  clusterName :: string
  taskImage :: "string option"
  containerPort :: jsnum
  desiredCount :: jsnum
  cpu_EcsStackProps :: jsnum
  memory :: jsnum
  dbSecret_EcsStackProps :: path
  dbSecurityGroup_EcsStackProps :: path

record EcsStack =
  albDomain :: cdk_string

text \<open>
  The constructor reads \<^verbatim>\<open>process.env.BACKEND_CERT_ARN\<close> itself. Without a tagged
  image the container image comes from the context key \<^verbatim>\<open>ecrRepo\<close>, which is not a
  setting of the orchestrator. The log driver of the container is left out.
\<close>

text \<open>
  Two of the container's environment variables are conditional expressions on a
  property of the stack: \<^verbatim>\<open>props.dbSecurityGroup ? props.dbSecurityGroup.securityGroupId : ''\<close>
  for \<^verbatim>\<open>DB_HOST\<close> and \<^verbatim>\<open>props.dbSecret ? e : e\<close> with
  \<^verbatim>\<open>e = dbSecret.secretValueFromJson('username').toString()\<close> for \<^verbatim>\<open>DB_NAME\<close>.
  The first argument is the truth value of the condition.
\<close>

definition DB_HOST_value :: "bool \<Rightarrow> path \<Rightarrow> cdk_string" where
  "DB_HOST_value c sg = (if c then Attr sg ''securityGroupId'' else Lit [])"

definition DB_NAME_value :: "bool \<Rightarrow> path \<Rightarrow> cdk_string" where
  "DB_NAME_value c sec =
     (if c then SecretJson sec ''username'' else SecretJson sec ''username'')"

definition new_EcsStack ::
  "process_env \<Rightarrow> cdk_app \<Rightarrow> string \<Rightarrow> EcsStackProps \<Rightarrow> EcsStack \<times> cdk_app" where
  "new_EcsStack penv st sid props =
     (let pn = projectName props;
          dbSecret = dbSecret_EcsStackProps props;
          dbSecurityGroup = dbSecurityGroup_EcsStackProps props;
          st1 = new_Stack Compute sid (env props) st;
          cluster = [sid, pn @ ''-EcsCluster''];
          st2 = add_construct cluster (Cluster (vpc_EcsStackProps props) (clusterName props)) st1;
          taskRole = [sid, pn @ ''-TaskRole''];
          st3 = add_construct taskRole
                  (Role \<lparr>assumedBy = ''ecs-tasks.amazonaws.com'', grants = []\<rparr>) st2;
          st4 = grantRead dbSecret taskRole st3;
          taskDef = [sid, pn @ ''-TaskDef''];
          st5 = add_construct taskDef
                  (FargateTaskDefinition
                     \<lparr>td_memoryLimitMiB = memory props, td_cpu = cpu_EcsStackProps props,
                      taskRole = taskRole\<rparr>) st4;
          image = (if truthy_str (taskImage props) then fromRegistry (template (taskImage props))
                   else fromEcrRepository_context ''ecrRepo'');
          container = [sid, pn @ ''-TaskDef'', pn @ ''-AppContainer''];
          st6 = add_construct container
                  (ContainerDefinition
                     \<lparr>image = image,
                      containerName = ''app'',
                      memoryLimitMiB = memory props,
                      cpu = cpu_EcsStackProps props,
                      essential = True,
                      environment =
                        [(''DB_HOST'',
                          DB_HOST_value (truthy_obj (dbSecurityGroup_EcsStackProps props))
                            (dbSecurityGroup_EcsStackProps props)),
                         (''DB_NAME'',
                          DB_NAME_value (truthy_obj (dbSecret_EcsStackProps props)) dbSecret),
                         (''DB_USER'', SecretJson dbSecret ''username'')],
                      secrets = [(''DB_PASSWORD'', dbSecret, ''password'')],
                      portMappings = []\<rparr>) st5;
          st7 = addPortMappings container (containerPort props) st6;
          ecsSecurityGroup = [sid, pn @ ''-App-SG''];
          st8 = add_construct ecsSecurityGroup
                  (SecurityGroup \<lparr>sg_vpc = vpc_EcsStackProps props, allowAllOutbound = True,
                                  ingress_rules = [], egress_rules = []\<rparr>) st7;
          albSecurityGroup = [sid, pn @ ''-ALB-SG''];
          st9 = add_construct albSecurityGroup
                  (SecurityGroup \<lparr>sg_vpc = vpc_EcsStackProps props, allowAllOutbound = True,
                                  ingress_rules = [], egress_rules = []\<rparr>) st8;
          cfPrefixList = ''pl-3b927c52'';
          st10 = addIngressRule albSecurityGroup (PeerPrefixList cfPrefixList) (Fin 443) st9;
          st11 = addEgressRule albSecurityGroup (PeerSecurityGroup ecsSecurityGroup)
                   (containerPort props) st10;
          st12 = addIngressRule ecsSecurityGroup (PeerSecurityGroup albSecurityGroup)
                   (containerPort props) st11;
          alb = [sid, pn @ ''-ALB''];
          st13 = add_construct alb
                   (ApplicationLoadBalancer
                      \<lparr>alb_vpc = vpc_EcsStackProps props, internetFacing = True,
                       alb_securityGroup = albSecurityGroup,
                       loadBalancerName = pn @ ''-alb''\<rparr>) st12;
          listener = (if truthy_str (penv ''BACKEND_CERT_ARN'')
                      then [sid, pn @ ''-ALB'', ''HttpsListener'']
                      else [sid, pn @ ''-ALB'', ''HttpListener'']);
          st14 = (if truthy_str (penv ''BACKEND_CERT_ARN'')
                  then add_construct listener
                         (ApplicationListener
                            \<lparr>listener_port = 443,
                             certificates = [template (penv ''BACKEND_CERT_ARN'')],
                             listener_open = False, listener_targetGroups = []\<rparr>) st13
                  else addIngressRule albSecurityGroup (PeerPrefixList cfPrefixList) (Fin 80)
                         (add_construct listener
                            (ApplicationListener
                               \<lparr>listener_port = 80, certificates = [],
                                listener_open = False, listener_targetGroups = []\<rparr>) st13));
          targetGroup = [sid, pn @ ''-TG''];
          st15 = add_construct targetGroup
                   (ApplicationTargetGroup
                      \<lparr>tg_vpc = vpc_EcsStackProps props, tg_port = containerPort props,
                       healthCheck_path = ''/health'', tg_targets = []\<rparr>) st14;
          st16 = addTargetGroups listener targetGroup st15;
          ecsService = [sid, pn @ ''-Service''];
          st17 = add_construct ecsService
                   (FargateService
                      \<lparr>cluster = cluster, taskDefinition = taskDef,
                       service_desiredCount = desiredCount props,
                       service_securityGroups = [ecsSecurityGroup],
                       assignPublicIp = False,
                       service_subnetGroupName = ''Application''\<rparr>) st16;
          st18 = attachToApplicationTargetGroup ecsService targetGroup st17;
          st19 = addIngressRule dbSecurityGroup (PeerSecurityGroup ecsSecurityGroup)
                   (Fin 3306) st18;
          this_albDomain = Attr alb ''loadBalancerDnsName'';
          st20 = add_construct [sid, ''AlbDNS''] (CfnOutput this_albDomain) st19
      in (\<lparr>albDomain = this_albDomain\<rparr>, st20))"

subsection \<open>FrontendStack\<close>

record FrontendStackProps = StackProps +
  bucketName :: string
  albDomain_FrontendStackProps :: cdk_string
  albHttpsPort :: jsnum
  cloudFrontDomain :: "string option"
  cloudFrontCertArn :: "string option"

record FrontendStack =
  cloudFrontDistribution :: path

text \<open>The bucket policy for the distribution is left out.\<close>

definition new_FrontendStack ::
  "cdk_app \<Rightarrow> string \<Rightarrow> FrontendStackProps \<Rightarrow> FrontendStack \<times> cdk_app" where
  "new_FrontendStack st sid props =
     (let pn = projectName props;
          st1 = new_Stack Edge sid (env props) st;
          siteBucket = [sid, pn @ ''-FrontendBucket''];
          st2 = add_construct siteBucket (Bucket (bucketName props)) st1;
          oac = [sid, ''SiteBucketOAC''];
          st3 = add_construct oac (CfnOriginAccessControl (pn @ ''-OAC'')) st2;
          webACL = [sid, pn @ ''-WebACL''];
          st4 = add_construct webACL (CfnWebACL (pn @ ''-WebACL'')) st3;
          this_cloudFrontDistribution = [sid, pn @ ''-CloudFront''];
          st5 = add_construct this_cloudFrontDistribution
                  (Distribution
                     \<lparr>s3_origin = siteBucket,
                      alb_origin = albDomain_FrontendStackProps props,
                      alb_protocolPolicy =
                        (if albHttpsPort props = Fin 443 then HTTPS_ONLY else HTTP_ONLY),
                      webAclId = Attr webACL ''attrArn'',
                      domainNames =
                        (if truthy_str (cloudFrontDomain props)
                         then Some [template (cloudFrontDomain props)] else None),
                      certificate =
                        (if truthy_str (cloudFrontCertArn props)
                         then Some (template (cloudFrontCertArn props)) else None)\<rparr>) st4;
          st6 = add_construct [sid, ''CloudFrontURL'']
                  (CfnOutput
                     (if truthy_str (cloudFrontDomain props)
                      then Lit (''https://'' @ template (cloudFrontDomain props))
                      else Concat (Lit ''https://'')
                             (Attr this_cloudFrontDistribution ''domainName''))) st5
      in (\<lparr>cloudFrontDistribution = this_cloudFrontDistribution\<rparr>, st6))"


section \<open>The orchestrator\<close>

text \<open>
  \<^verbatim>\<open>bin/app.ts\<close>, after \<^verbatim>\<open>config()\<close> has loaded the \<^verbatim>\<open>.env\<close> file into
  \<^verbatim>\<open>process.env\<close>. Each props object is resolved from the environment right before
  its stack is instantiated.
\<close>

definition envRegion :: "process_env \<Rightarrow> string" where
  "envRegion penv = str_or (penv ''AWS_REGION'') ''us-east-1''"

definition envAccount :: "process_env \<Rightarrow> string" where
  "envAccount penv =
     str_or (penv ''CDK_DEFAULT_ACCOUNT'')
       (str_or (penv ''AWS_ACCOUNT_ID'') ''<YOUR-AWS-ACCOUNT-ID>'')"

definition app_env :: "process_env \<Rightarrow> stack_env" where
  "app_env penv = \<lparr>account = envAccount penv, region = envRegion penv\<rparr>"

definition app_projectName :: "process_env \<Rightarrow> string" where
  "app_projectName penv = str_or (penv ''PROJECT_NAME'') ''webapp-core''"

definition networkStackProps :: "process_env \<Rightarrow> NetworkStackProps" where
  "networkStackProps penv =
     \<lparr>env = app_env penv,
      projectName = app_projectName penv,
      cidr = str_or (penv ''VPC_CIDR'') ''10.0.0.0/16'',
      maxAzs = num_or (Number_js (penv ''MAX_AZS'')) 2\<rparr>"

definition ecrStackProps :: "process_env \<Rightarrow> EcrStackProps" where
  "ecrStackProps penv =
     \<lparr>env = app_env penv,
      projectName = app_projectName penv,
      repoName = str_or (penv ''ECR_REPO_NAME'') (app_projectName penv @ ''-app-repo'')\<rparr>"

definition databaseStackProps :: "process_env \<Rightarrow> NetworkStack \<Rightarrow> DatabaseStackProps" where
  "databaseStackProps penv networkStack =
     \<lparr>env = app_env penv,
      projectName = app_projectName penv,
      vpc_DatabaseStackProps = vpc networkStack,
      dbName = str_or (penv ''DB_NAME'') ''appdb'',
      dbEngine = str_or (penv ''DB_ENGINE'') ''mysql'',
      dbEngineVersion = str_or (penv ''DB_ENGINE_VERSION'') ''8.0'',
      dbInstanceClass = str_or (penv ''DB_INSTANCE_CLASS'') ''db.t3.micro'',
      dbUsername = str_or (penv ''DB_USERNAME'') ''admin''\<rparr>"

definition authStackProps :: "process_env \<Rightarrow> AuthStackProps" where
  "authStackProps penv =
     \<lparr>env = app_env penv,
      projectName = app_projectName penv,
      userPoolName = str_or (penv ''COGNITO_USER_POOL_NAME'') (app_projectName penv @ ''-users''),
      webClientName =
        str_or (penv ''COGNITO_APP_CLIENT_NAME'') (app_projectName penv @ ''-web-client'')\<rparr>"

definition ecsStackProps ::
  "process_env \<Rightarrow> NetworkStack \<Rightarrow> DatabaseStack \<Rightarrow> EcsStackProps" where
  "ecsStackProps penv networkStack databaseStack =
     \<lparr>env = app_env penv,
      projectName = app_projectName penv,
      vpc_EcsStackProps = vpc networkStack,
      clusterName = app_projectName penv @ ''-cluster'',
      taskImage = str_or_undefined (penv ''CONTAINER_IMAGE_URI''),
      containerPort = num_or (Number_js (penv ''ECS_CONTAINER_PORT'')) 80,
      desiredCount = num_or (Number_js (penv ''ECS_DESIRED_COUNT'')) 2,
      cpu_EcsStackProps = num_or (Number_js (penv ''ECS_TASK_CPU'')) 256,
      memory = num_or (Number_js (penv ''ECS_TASK_MEMORY'')) 512,
      dbSecret_EcsStackProps = dbSecret databaseStack,
      dbSecurityGroup_EcsStackProps = dbSecurityGroup databaseStack\<rparr>"

definition frontendStackProps :: "process_env \<Rightarrow> EcsStack \<Rightarrow> FrontendStackProps" where
  "frontendStackProps penv ecsStack =
     \<lparr>env = app_env penv,
      projectName = app_projectName penv,
      bucketName = app_projectName penv @ ''-frontend-bucket'',
      albDomain_FrontendStackProps = albDomain ecsStack,
      albHttpsPort = Fin 443,
      cloudFrontDomain = str_or_undefined (penv ''FRONTEND_DOMAIN''),
      cloudFrontCertArn = str_or_undefined (penv ''FRONTEND_CERT_ARN'')\<rparr>"

text \<open>
  The state the script ends in: the app and the six stack objects that its constants
  \<^verbatim>\<open>networkStack\<close>, ..., \<^verbatim>\<open>frontendStack\<close> hold.
\<close>

record program =
  cdk :: cdk_app
  const_networkStack :: NetworkStack
  const_ecrStack :: EcrStack
  const_databaseStack :: DatabaseStack
  const_authStack :: AuthStack
  const_ecsStack :: EcsStack
  const_frontendStack :: FrontendStack

definition FrontendURL :: "process_env \<Rightarrow> FrontendStack \<Rightarrow> cdk_string" where
  "FrontendURL penv frontendStack =
     (if truthy_str (penv ''FRONTEND_DOMAIN'')
      then Lit (''https://'' @ template (penv ''FRONTEND_DOMAIN''))
      else Attr (cloudFrontDistribution frontendStack) ''domainName'')"

definition app :: "ec2_enums \<Rightarrow> process_env \<Rightarrow> error + program" where
  "app lib penv =
     (let projectName = app_projectName penv;
          (networkStack, st1) =
             new_NetworkStack new_App (projectName @ ''-NetworkStack'') (networkStackProps penv);
          (ecrStack, st2) =
             new_EcrStack st1 (projectName @ ''-ECRStack'') (ecrStackProps penv)
      in case new_DatabaseStack lib st2 (projectName @ ''-DatabaseStack'')
                (databaseStackProps penv networkStack) of
           Inl e \<Rightarrow> Inl e
         | Inr (databaseStack, st3) \<Rightarrow>
             (let (authStack, st4) =
                     new_AuthStack st3 (projectName @ ''-AuthStack'') (authStackProps penv);
                  (ecsStack, st5) =
                     new_EcsStack penv st4 (projectName @ ''-EcsStack'')
                       (ecsStackProps penv networkStack databaseStack);
                  (frontendStack, st6) =
                     new_FrontendStack st5 (projectName @ ''-FrontendStack'')
                       (frontendStackProps penv ecsStack);
                  st7 = addDependency Compute Database st6;
                  st8 = addDependency Compute Network st7;
                  st9 = addDependency Database Network st8;
                  st10 = addDependency Edge Compute st9;
                  st11 = addDependency Edge Network st10;
                  st12 = addDependency Edge Identity st11;
                  st13 = add_construct [''FrontendURL'']
                           (CfnOutput (FrontendURL penv frontendStack)) st12
              in Inr \<lparr>cdk = st13,
                      const_networkStack = networkStack, const_ecrStack = ecrStack,
                      const_databaseStack = databaseStack, const_authStack = authStack,
                      const_ecsStack = ecsStack, const_frontendStack = frontendStack\<rparr>))"


text \<open>A path belongs to a stack when it starts with the stack's id.\<close>

definition owned_by :: "string \<Rightarrow> path \<Rightarrow> bool" where
  "owned_by sid p = (case p of [] \<Rightarrow> False | s # _ \<Rightarrow> s = sid)"


section \<open>Observations on a run\<close>






definition is_positive_integer :: "jsnum \<Rightarrow> bool" where
  "is_positive_integer x = (case x of Fin q \<Rightarrow> 0 < q \<and> of_int \<lfloor>q\<rfloor> = q | _ \<Rightarrow> False)"


section \<open>Facts about the construct tree\<close>

lemma owned_by_Cons [simp]: "owned_by sid (s # p) = (s = sid)"
  by (simp add: owned_by_def)


lemma new_Stack_simps [simp]:
  "stacks (new_Stack c sid e st) =
     stacks st @ [\<lparr>stack_component = c, stack_id = sid, stack_props_env = e\<rparr>]"
  "constructs (new_Stack c sid e st) = constructs st"
  "dependencies (new_Stack c sid e st) = dependencies st"
  by (simp_all add: new_Stack_def)

lemma add_construct_simps [simp]:
  "stacks (add_construct p c st) = stacks st"
  "constructs (add_construct p c st) = (constructs st)(p \<mapsto> c)"
  "dependencies (add_construct p c st) = dependencies st"
  by (simp_all add: add_construct_def)

lemma addDependency_simps [simp]:
  "stacks (addDependency a b st) = stacks st"
  "constructs (addDependency a b st) = constructs st"
  "dependencies (addDependency a b st) = dependencies st @ [(a, b)]"
  by (simp_all add: addDependency_def)

lemma mutator_stacks [simp]:
  "stacks (addIngressRule sg p port st) = stacks st"
  "stacks (addEgressRule sg p port st) = stacks st"
  "stacks (grantRead sec r st) = stacks st"
  "stacks (addPortMappings c port st) = stacks st"
  "stacks (addTargetGroups l tg st) = stacks st"
  "stacks (attachToApplicationTargetGroup svc tg st) = stacks st"
  by (simp_all add: addIngressRule_def addEgressRule_def grantRead_def addPortMappings_def
      addTargetGroups_def attachToApplicationTargetGroup_def
      split: option.splits construct.splits)

lemma mutator_dependencies [simp]:
  "dependencies (addIngressRule sg p port st) = dependencies st"
  "dependencies (addEgressRule sg p port st) = dependencies st"
  "dependencies (grantRead sec r st) = dependencies st"
  "dependencies (addPortMappings c port st) = dependencies st"
  "dependencies (addTargetGroups l tg st) = dependencies st"
  "dependencies (attachToApplicationTargetGroup svc tg st) = dependencies st"
  by (simp_all add: addIngressRule_def addEgressRule_def grantRead_def addPortMappings_def
      addTargetGroups_def attachToApplicationTargetGroup_def
      split: option.splits construct.splits)










lemma new_DatabaseStack_Inl:
  "new_DatabaseStack lib st sid props = Inl e \<longleftrightarrow>
     instanceType_of lib (dbInstanceClass props) = Inl e"
  by (simp add: new_DatabaseStack_def Let_def split: sum.splits)









section \<open>A run of the orchestrator\<close>


lemma props_simps [simp]:
  "projectName (networkStackProps penv) = app_projectName penv"
  "projectName (ecrStackProps penv) = app_projectName penv"
  "projectName (databaseStackProps penv ns) = app_projectName penv"
  "projectName (authStackProps penv) = app_projectName penv"
  "projectName (ecsStackProps penv ns db) = app_projectName penv"
  "projectName (frontendStackProps penv ec) = app_projectName penv"
  "dbSecret_EcsStackProps (ecsStackProps penv ns db) = dbSecret db"
  "dbSecurityGroup_EcsStackProps (ecsStackProps penv ns db) = dbSecurityGroup db"
  "vpc_EcsStackProps (ecsStackProps penv ns db) = vpc ns"
  "vpc_DatabaseStackProps (databaseStackProps penv ns) = vpc ns"
  "dbInstanceClass (databaseStackProps penv ns) =
     str_or (penv ''DB_INSTANCE_CLASS'') ''db.t3.micro''"
  by (simp_all add: networkStackProps_def ecrStackProps_def databaseStackProps_def
      authStackProps_def ecsStackProps_def frontendStackProps_def)




section \<open>Facts about numbers\<close>

lemma round_ties_even_int: "round_ties_even (of_int m) = m"
  by (simp add: round_ties_even_def)

lemma bitlen_pos: "0 < k \<Longrightarrow> 1 \<le> bitlen k"
  using bitlen_eq_zero_iff [of k] bitlen_nonneg [of k] by linarith

lemma ilog2_int:
  assumes "0 < k"
  shows "ilog2 (of_int k) = bitlen k - 1"
proof -
  have q: "quotient_of (of_int k :: rat) = (k, 1)"
    by (simp add: quotient_of_int)
  have b1: "bitlen 1 = 1"
    by (simp add: bitlen_alt_def)
  have ge: "1 \<le> bitlen k"
    using assms by (rule bitlen_pos)
  have "(2::int) ^ nat (bitlen k - 1) \<le> k"
    using bitlen_bounds [OF assms] by simp
  then have "(of_int ((2::int) ^ nat (bitlen k - 1)) :: rat) \<le> of_int k"
    by (simp only: of_int_le_iff)
  then have "pow2 (bitlen k - 1) \<le> of_int k"
    using ge by (simp add: pow2_def)
  then show ?thesis
    by (simp add: ilog2_def q b1)
qed

lemma round_magnitude_int:
  assumes "0 < k" and "k < 2 ^ 53"
  defines "e \<equiv> max (ilog2 (of_int k)) (- 1022)"
  shows "of_int (round_ties_even (of_int k / pow2 (e - 52))) * pow2 (e - 52) = (of_int k :: rat)"
proof -
  have e0: "0 \<le> bitlen k - 1"
    using bitlen_pos [OF assms(1)] by simp
  have "bitlen k \<le> 53"
    using assms(2) by (simp add: bitlen_le_iff_power)
  then have e52: "bitlen k - 1 \<le> 52"
    by simp
  have m: "e = bitlen k - 1"
    using e0 by (simp add: e_def ilog2_int [OF assms(1)])
  define j where "j = nat (52 - e)"
  have u: "pow2 (e - 52) = 1 / 2 ^ j"
    using e52 by (auto simp: pow2_def j_def m)
  have quot: "(of_int k :: rat) / (1 / 2 ^ j) = of_int (k * 2 ^ j)"
    by simp
  show ?thesis
    by (simp only: u quot round_ties_even_int) simp
qed

lemma RoundMVResult_int:
  assumes "\<bar>k\<bar> < 2 ^ 53"
  shows "RoundMVResult (of_int k) = Fin (of_int k)"
proof (cases "k = 0")
  case True
  then show ?thesis by (simp add: RoundMVResult_def)
next
  case False
  then have pos: "0 < \<bar>k\<bar>" by simp
  have abs: "\<bar>of_int k :: rat\<bar> = of_int \<bar>k\<bar>"
    by simp
  have small: "\<not> (2 ^ 1024 \<le> (of_int \<bar>k\<bar> :: rat))"
  proof -
    have "(of_int \<bar>k\<bar> :: rat) < of_int (2 ^ 53)"
      using assms by (simp only: of_int_less_iff)
    also have "\<dots> \<le> 2 ^ 1024"
      by simp
    finally show ?thesis by simp
  qed
  have nz: "(of_int k :: rat) \<noteq> 0"
    using False by simp
  have sgn: "(if 0 < (of_int k :: rat) then of_int \<bar>k\<bar> else - of_int \<bar>k\<bar>) = (of_int k :: rat)"
    by simp
  show ?thesis
    unfolding RoundMVResult_def Let_def abs round_magnitude_int [OF pos assms]
    using nz small sgn by simp
qed

lemma RoundMVResult_nat:
  "n < 2 ^ 53 \<Longrightarrow> RoundMVResult (of_nat n) = Fin (of_nat n)"
  using RoundMVResult_int [of "int n"] by simp

lemma is_digit_iff: "is_digit c \<longleftrightarrow> 48 \<le> (of_char c :: nat) \<and> (of_char c :: nat) \<le> 57"
  by (auto simp: is_digit_def digit_of_def Let_def split: option.splits if_splits)

lemma dropWhile_hd: "xs \<noteq> [] \<Longrightarrow> \<not> P (hd xs) \<Longrightarrow> dropWhile P xs = xs"
  by (cases xs) auto

lemma digit_not_ws: "is_digit c \<Longrightarrow> \<not> is_ws c"
  by (auto simp: is_digit_iff is_ws_def)

lemma trim_digits:
  assumes "s \<noteq> []" and "\<forall>c \<in> set s. is_digit c"
  shows "trim s = s"
proof -
  have "\<not> is_ws (hd s)"
    using assms by (simp add: digit_not_ws)
  then have 1: "dropWhile is_ws s = s"
    using assms(1) by (simp add: dropWhile_hd)
  have "hd (rev s) \<in> set s"
    using assms(1) by (simp add: hd_rev)
  then have "\<not> is_ws (hd (rev s))"
    using assms(2) by (simp add: digit_not_ws)
  then have 2: "dropWhile is_ws (rev s) = rev s"
    using assms(1) by (simp add: dropWhile_hd)
  show ?thesis
    by (simp add: trim_def 1 2)
qed

lemma not_digit_chars:
  "\<not> is_digit CHR ''b''" "\<not> is_digit CHR ''B''" "\<not> is_digit CHR ''o''" "\<not> is_digit CHR ''O''"
  "\<not> is_digit CHR ''x''" "\<not> is_digit CHR ''X''" "\<not> is_digit CHR ''+''" "\<not> is_digit CHR ''-''"
  "\<not> is_digit CHR ''I''"
  by (simp_all add: is_digit_iff)

lemma NonDecimal_digits:
  assumes "\<forall>c \<in> set s. is_digit c"
  shows "NonDecimalIntegerLiteral s = None"
proof (cases s)
  case Nil
  then show ?thesis by (simp add: NonDecimalIntegerLiteral_def)
next
  case (Cons c0 t)
  show ?thesis
  proof (cases t)
    case Nil
    then show ?thesis using Cons by (simp add: NonDecimalIntegerLiteral_def)
  next
    case (Cons c1 ds)
    then have "is_digit c1"
      using assms \<open>s = c0 # t\<close> by simp
    then have "c1 \<noteq> CHR ''b''" "c1 \<noteq> CHR ''B''" "c1 \<noteq> CHR ''o''" "c1 \<noteq> CHR ''O''"
      "c1 \<noteq> CHR ''x''" "c1 \<noteq> CHR ''X''"
      using not_digit_chars by auto
    then show ?thesis
      using Cons \<open>s = c0 # t\<close> by (simp add: NonDecimalIntegerLiteral_def)
  qed
qed

lemma StrUnsignedDecimalLiteral_digits:
  assumes "s \<noteq> []" and "\<forall>c \<in> set s. is_digit c"
  shows "StrUnsignedDecimalLiteral s = Some (MV (of_nat (dec_val s)))"
proof -
  have "hd s \<in> set s"
    using assms(1) by simp
  then have "is_digit (hd s)"
    using assms(2) by blast
  then have inf: "s \<noteq> ''Infinity''"
    using not_digit_chars(9) by auto
  have tw: "takeWhile is_digit s = s"
    using assms(2) by simp
  have dw: "dropWhile is_digit s = []"
    using assms(2) by simp
  show ?thesis
    unfolding StrUnsignedDecimalLiteral_def Let_def tw dw
    using inf assms(1) by simp
qed

lemma StringToNumber_digits:
  assumes "s \<noteq> []" and "list_all is_digit s"
  shows "StringToNumber s = RoundMVResult (of_nat (dec_val s))"
proof -
  have all: "\<forall>c \<in> set s. is_digit c"
    using assms(2) by (simp add: list_all_iff)
  have t: "trim s = s"
    using assms(1) all by (rule trim_digits)
  have n: "NonDecimalIntegerLiteral s = None"
    using all by (rule NonDecimal_digits)
  have u: "StrUnsignedDecimalLiteral s = Some (MV (of_nat (dec_val s)))"
    using assms(1) all by (rule StrUnsignedDecimalLiteral_digits)
  obtain c v where s: "s = c # v"
    using assms(1) by (cases s) auto
  then have "is_digit c"
    using all by simp
  then have c: "c \<noteq> CHR ''+''" "c \<noteq> CHR ''-''"
    using not_digit_chars by auto
  have "StringToNumber s =
      (case s of [] \<Rightarrow> NaN
       | c # v \<Rightarrow> if c = CHR ''+'' then signed_mv False (StrUnsignedDecimalLiteral v)
                  else if c = CHR ''-'' then signed_mv True (StrUnsignedDecimalLiteral v)
                  else signed_mv False (StrUnsignedDecimalLiteral s))"
    unfolding StringToNumber_def Let_def t n using assms(1) by simp
  also have "\<dots> = signed_mv False (StrUnsignedDecimalLiteral s)"
    using c by (simp add: s)
  finally show ?thesis
    by (simp add: u signed_mv_def)
qed

lemma Number_js_digits:
  assumes "s \<noteq> []" and "list_all is_digit s" and "dec_val s < 2 ^ 53"
  shows "Number_js (Some s) = Fin (of_nat (dec_val s))"
  by (simp add: Number_js_def StringToNumber_digits [OF assms(1,2)] RoundMVResult_nat [OF assms(3)])

lemma Number_js_absent: "Number_js None = NaN"
  by (simp add: Number_js_def)

lemma Number_js_empty: "Number_js (Some []) = Fin 0"
  by (simp add: Number_js_def StringToNumber_def trim_def)


lemma Number_js_minus_5: "Number_js (Some ''-5'') = Fin (- 5)"
  using RoundMVResult_int [of "- 5"] StrUnsignedDecimalLiteral_digits [of "''5''"]
  by (simp add: Number_js_def StringToNumber_def trim_def is_ws_def NonDecimalIntegerLiteral_def
      is_digit_iff dec_val_def digit_of_def signed_mv_def)

lemma num_or_cases:
  "num_or x d = (if x = NaN \<or> x = Fin 0 then Fin d else x)"
  by (simp add: num_or_def truthy_num_def)

lemma resolve_numeric:
  assumes "d \<noteq> 0"
  shows "truthy_num (num_or (Number_js v) d)"
    and "v = None \<or> v = Some [] \<or> Number_js v = NaN \<or> Number_js v = Fin 0
           \<Longrightarrow> num_or (Number_js v) d = Fin d"
    and "v = Some s \<Longrightarrow> s \<noteq> [] \<Longrightarrow> list_all is_digit s \<Longrightarrow> 0 < dec_val s
           \<Longrightarrow> dec_val s < 2 ^ 53
           \<Longrightarrow> num_or (Number_js v) d = Fin (of_nat (dec_val s))
               \<and> is_positive_integer (num_or (Number_js v) d)"
    and "truthy_num (Number_js v) \<Longrightarrow> num_or (Number_js v) d = Number_js v"
proof -
  show "truthy_num (num_or (Number_js v) d)"
    using assms by (simp add: num_or_def truthy_num_def)
  show "num_or (Number_js v) d = Fin d"
    if "v = None \<or> v = Some [] \<or> Number_js v = NaN \<or> Number_js v = Fin 0"
    using that by (auto simp: num_or_cases Number_js_absent Number_js_empty)
  show "num_or (Number_js v) d = Fin (of_nat (dec_val s))
               \<and> is_positive_integer (num_or (Number_js v) d)"
    if "v = Some s" "s \<noteq> []" "list_all is_digit s" "0 < dec_val s" "dec_val s < 2 ^ 53"
    using that Number_js_digits [OF that(2,3,5)]
    by (simp add: num_or_cases is_positive_integer_def)
  show "num_or (Number_js v) d = Number_js v" if "truthy_num (Number_js v)"
    using that by (simp add: num_or_def)
qed


section \<open>The claims\<close>
















lemma defaults_empty [simp]:
  "app_projectName Map.empty = ''webapp-core''"
  "num_or (Number_js None) d = Fin d"
  by (simp_all add: app_projectName_def str_or_def Number_js_absent num_or_cases)






lemma sample_props [simp]:
  "dbSecurityGroup_EcsStackProps
     (ecsStackProps Map.empty \<lparr>vpc = [''N'', ''VPC'']\<rparr>
        \<lparr>dbSecurityGroup = [''D'', ''DB-SG''], dbSecret = [''D'', ''DBCredentials''],
         dbInstance = [''D'', ''Database'']\<rparr>) = [''D'', ''DB-SG'']"
  by (simp add: ecsStackProps_def)



text \<open>
  C4, as amended. For each of the five numeric settings the resolver returns, without
  raising, \<^verbatim>\<open>Number\<close> of the override when that is a number other than \<open>NaN\<close> and
  zero, and the default (2, 80, 2, 256, 512, each a positive integer) otherwise: for an
  absent, an empty, a non-numeric or a zero override. The result is never \<open>NaN\<close> or
  zero. An override of decimal digits that denotes a positive integer below \<open>2^53\<close>
  resolves to that integer. Nothing makes the result a positive integer in general: a
  negative or fractional override is passed on as it is.
\<close>

theorem C4_numeric_settings:
  "list_all (\<lambda>(v, x, d).
       x = num_or (Number_js v) d
     \<and> truthy_num x
     \<and> is_positive_integer (Fin d)
     \<and> (v = None \<or> v = Some [] \<or> Number_js v = NaN \<or> Number_js v = Fin 0 \<longrightarrow> x = Fin d)
     \<and> (truthy_num (Number_js v) \<longrightarrow> x = Number_js v)
     \<and> (\<forall>s. v = Some s \<and> s \<noteq> [] \<and> list_all is_digit s \<and> 0 < dec_val s \<and> dec_val s < 2 ^ 53
            \<longrightarrow> x = Fin (of_nat (dec_val s)) \<and> is_positive_integer x))
    [(penv ''MAX_AZS'', maxAzs (networkStackProps penv), 2),
     (penv ''ECS_CONTAINER_PORT'', containerPort (ecsStackProps penv ns db), 80),
     (penv ''ECS_DESIRED_COUNT'', desiredCount (ecsStackProps penv ns db), 2),
     (penv ''ECS_TASK_CPU'', cpu_EcsStackProps (ecsStackProps penv ns db), 256),
     (penv ''ECS_TASK_MEMORY'', memory (ecsStackProps penv ns db), 512)]"
proof -
  let ?P = "\<lambda>(v, x, d).
       x = num_or (Number_js v) d
     \<and> truthy_num x
     \<and> is_positive_integer (Fin d)
     \<and> (v = None \<or> v = Some [] \<or> Number_js v = NaN \<or> Number_js v = Fin 0 \<longrightarrow> x = Fin d)
     \<and> (truthy_num (Number_js v) \<longrightarrow> x = Number_js v)
     \<and> (\<forall>s. v = Some s \<and> s \<noteq> [] \<and> list_all is_digit s \<and> 0 < dec_val s \<and> dec_val s < 2 ^ 53
            \<longrightarrow> x = Fin (of_nat (dec_val s)) \<and> is_positive_integer x)"
  have one: "?P (v, num_or (Number_js v) d, d)"
    if d: "d \<noteq> 0" and p: "is_positive_integer (Fin d)" for v d
    unfolding prod.case
  proof (intro conjI allI impI)
    note rn = resolve_numeric [OF d, of v]
    show "num_or (Number_js v) d = num_or (Number_js v) d" ..
    show "truthy_num (num_or (Number_js v) d)"
      by (rule rn(1))
    show "is_positive_integer (Fin d)"
      by (rule p)
    show "num_or (Number_js v) d = Fin d"
      if "v = None \<or> v = Some [] \<or> Number_js v = NaN \<or> Number_js v = Fin 0"
      using that by (rule rn(2))
    show "num_or (Number_js v) d = Number_js v" if "truthy_num (Number_js v)"
      using that by (rule rn(4))
    show "num_or (Number_js v) d = Fin (of_nat (dec_val s))"
      if "v = Some s \<and> s \<noteq> [] \<and> list_all is_digit s \<and> 0 < dec_val s \<and> dec_val s < 2 ^ 53"
      for s
      using rn(3) [of s] that by simp
    show "is_positive_integer (num_or (Number_js v) d)"
      if "v = Some s \<and> s \<noteq> [] \<and> list_all is_digit s \<and> 0 < dec_val s \<and> dec_val s < 2 ^ 53"
      for s
      using rn(3) [of s] that by (simp add: is_positive_integer_def)
  qed
  have eqs: "maxAzs (networkStackProps penv) = num_or (Number_js (penv ''MAX_AZS'')) 2"
    "containerPort (ecsStackProps penv ns db) = num_or (Number_js (penv ''ECS_CONTAINER_PORT'')) 80"
    "desiredCount (ecsStackProps penv ns db) = num_or (Number_js (penv ''ECS_DESIRED_COUNT'')) 2"
    "cpu_EcsStackProps (ecsStackProps penv ns db) = num_or (Number_js (penv ''ECS_TASK_CPU'')) 256"
    "memory (ecsStackProps penv ns db) = num_or (Number_js (penv ''ECS_TASK_MEMORY'')) 512"
    by (simp_all add: networkStackProps_def ecsStackProps_def)
  have 1: "?P (penv ''MAX_AZS'', num_or (Number_js (penv ''MAX_AZS'')) 2, 2)"
    by (rule one) (simp_all add: is_positive_integer_def)
  have 2: "?P (penv ''ECS_CONTAINER_PORT'', num_or (Number_js (penv ''ECS_CONTAINER_PORT'')) 80, 80)"
    by (rule one) (simp_all add: is_positive_integer_def)
  have 3: "?P (penv ''ECS_DESIRED_COUNT'', num_or (Number_js (penv ''ECS_DESIRED_COUNT'')) 2, 2)"
    by (rule one) (simp_all add: is_positive_integer_def)
  have 4: "?P (penv ''ECS_TASK_CPU'', num_or (Number_js (penv ''ECS_TASK_CPU'')) 256, 256)"
    by (rule one) (simp_all add: is_positive_integer_def)
  have 5: "?P (penv ''ECS_TASK_MEMORY'', num_or (Number_js (penv ''ECS_TASK_MEMORY'')) 512, 512)"
    by (rule one) (simp_all add: is_positive_integer_def)
  show ?thesis
    unfolding eqs list.pred_inject
    by (intro conjI 1 2 3 4 5) simp
qed

theorem C4_numeric_settings_witness:
  "maxAzs (networkStackProps [''MAX_AZS'' \<mapsto> ''3'', ''ECS_TASK_CPU'' \<mapsto> ''abc'']) = Fin 3
   \<and> cpu_EcsStackProps
       (ecsStackProps [''MAX_AZS'' \<mapsto> ''3'', ''ECS_TASK_CPU'' \<mapsto> ''abc''] \<lparr>vpc = []\<rparr>
          \<lparr>dbSecurityGroup = [], dbSecret = [], dbInstance = []\<rparr>) = Fin 256
   \<and> memory
       (ecsStackProps [''MAX_AZS'' \<mapsto> ''3'', ''ECS_TASK_CPU'' \<mapsto> ''abc''] \<lparr>vpc = []\<rparr>
          \<lparr>dbSecurityGroup = [], dbSecret = [], dbInstance = []\<rparr>) = Fin 512"
proof -
  let ?penv = "[''MAX_AZS'' \<mapsto> ''3'', ''ECS_TASK_CPU'' \<mapsto> ''abc'']"
  let ?ns = "\<lparr>vpc = []\<rparr>"
  let ?db = "\<lparr>dbSecurityGroup = [], dbSecret = [], dbInstance = []\<rparr>"
  note all = C4_numeric_settings [of ?penv ?ns ?db, unfolded list.pred_inject prod.case]
  have nan: "Number_js (?penv ''ECS_TASK_CPU'') = NaN"
    by (simp add: Number_js_def StringToNumber_def trim_def is_ws_def
        NonDecimalIntegerLiteral_def StrUnsignedDecimalLiteral_def is_digit_iff signed_mv_def)
  have three: "?penv ''MAX_AZS'' = Some ''3'' \<and> ''3'' \<noteq> [] \<and> list_all is_digit ''3''
      \<and> 0 < dec_val ''3'' \<and> dec_val ''3'' < 2 ^ 53"
    by (simp add: is_digit_iff dec_val_def digit_of_def)
  have val: "Fin (of_nat (dec_val ''3'')) = Fin 3"
    by (simp add: dec_val_def digit_of_def)
  have absent: "?penv ''ECS_TASK_MEMORY'' = None"
    by simp
  note item1 = all [THEN conjunct1]
  note item4 = all [THEN conjunct2, THEN conjunct2, THEN conjunct2, THEN conjunct1]
  note item5 = all [THEN conjunct2, THEN conjunct2, THEN conjunct2, THEN conjunct2,
      THEN conjunct1]
  have "maxAzs (networkStackProps ?penv) = Fin (of_nat (dec_val ''3''))"
    by (rule item1 [THEN conjunct2, THEN conjunct2, THEN conjunct2, THEN conjunct2,
          THEN conjunct2, THEN spec, THEN mp, OF three, THEN conjunct1])
  moreover have "cpu_EcsStackProps (ecsStackProps ?penv ?ns ?db) = Fin 256"
    by (rule item4 [THEN conjunct2, THEN conjunct2, THEN conjunct2, THEN conjunct1, THEN mp])
      (simp only: nan simp_thms)
  moreover have "memory (ecsStackProps ?penv ?ns ?db) = Fin 512"
    by (rule item5 [THEN conjunct2, THEN conjunct2, THEN conjunct2, THEN conjunct1, THEN mp])
      (simp only: absent simp_thms)
  ultimately show ?thesis
    by (simp only: val simp_thms)
qed

theorem C4_positive_integer_counterexample:
  "maxAzs (networkStackProps [''MAX_AZS'' \<mapsto> ''-5'']) = Fin (- 5)
   \<and> \<not> is_positive_integer (maxAzs (networkStackProps [''MAX_AZS'' \<mapsto> ''-5'']))"
  by (simp add: networkStackProps_def Number_js_minus_5 num_or_cases is_positive_integer_def)

text \<open>
  C8, as amended. With none of the settings overridden (absent or empty) the resolver
  returns the fallbacks written in \<^verbatim>\<open>bin/app.ts\<close>: region \<^verbatim>\<open>us-east-1\<close>, project name
  \<^verbatim>\<open>webapp-core\<close>, address block \<^verbatim>\<open>10.0.0.0/16\<close>, 2 availability zones, engine
  \<^verbatim>\<open>mysql\<close>, engine version \<^verbatim>\<open>8.0\<close>, database name \<^verbatim>\<open>appdb\<close>, user name
  \<^verbatim>\<open>admin\<close>, repository name \<^verbatim>\<open>webapp-core-app-repo\<close> (the project name and
  \<^verbatim>\<open>-app-repo\<close>), 2 tasks, 256 CPU units, 512 MiB and container port 80.
\<close>

theorem C8_defaults:
  assumes "\<forall>k \<in> set [''AWS_REGION'', ''PROJECT_NAME'', ''VPC_CIDR'', ''MAX_AZS'', ''DB_ENGINE'',
              ''DB_ENGINE_VERSION'', ''DB_NAME'', ''DB_USERNAME'', ''ECR_REPO_NAME'',
              ''ECS_DESIRED_COUNT'', ''ECS_TASK_CPU'', ''ECS_TASK_MEMORY'',
              ''ECS_CONTAINER_PORT'']. penv k = None \<or> penv k = Some []"
  shows "region (env (networkStackProps penv)) = ''us-east-1''
    \<and> projectName (networkStackProps penv) = ''webapp-core''
    \<and> cidr (networkStackProps penv) = ''10.0.0.0/16''
    \<and> maxAzs (networkStackProps penv) = Fin 2
    \<and> dbEngine (databaseStackProps penv ns) = ''mysql''
    \<and> dbEngineVersion (databaseStackProps penv ns) = ''8.0''
    \<and> dbName (databaseStackProps penv ns) = ''appdb''
    \<and> dbUsername (databaseStackProps penv ns) = ''admin''
    \<and> repoName (ecrStackProps penv) = ''webapp-core-app-repo''
    \<and> desiredCount (ecsStackProps penv ns db) = Fin 2
    \<and> cpu_EcsStackProps (ecsStackProps penv ns db) = Fin 256
    \<and> memory (ecsStackProps penv ns db) = Fin 512
    \<and> containerPort (ecsStackProps penv ns db) = Fin 80"
proof -
  have s: "str_or (penv k) d = d" and n: "num_or (Number_js (penv k)) q = Fin q"
    if "penv k = None \<or> penv k = Some []" for k d q
    using that by (auto simp: str_or_def num_or_cases Number_js_absent Number_js_empty)
  from assms show ?thesis
    by (simp add: networkStackProps_def databaseStackProps_def ecrStackProps_def
        ecsStackProps_def app_env_def envRegion_def app_projectName_def s n)
qed

theorem C8_defaults_witness:
  "region (env (networkStackProps Map.empty)) = ''us-east-1''
    \<and> projectName (networkStackProps Map.empty) = ''webapp-core''
    \<and> cidr (networkStackProps Map.empty) = ''10.0.0.0/16''
    \<and> maxAzs (networkStackProps Map.empty) = Fin 2
    \<and> dbEngine (databaseStackProps Map.empty \<lparr>vpc = []\<rparr>) = ''mysql''
    \<and> dbEngineVersion (databaseStackProps Map.empty \<lparr>vpc = []\<rparr>) = ''8.0''
    \<and> repoName (ecrStackProps Map.empty) = ''webapp-core-app-repo''
    \<and> containerPort
        (ecsStackProps Map.empty \<lparr>vpc = []\<rparr>
           \<lparr>dbSecurityGroup = [], dbSecret = [], dbInstance = []\<rparr>) = Fin 80"
  using C8_defaults [of Map.empty "\<lparr>vpc = []\<rparr>"
      "\<lparr>dbSecurityGroup = [], dbSecret = [], dbInstance = []\<rparr>"]
  by simp

theorem C8_documented_defaults_counterexample:
  "dbEngineVersion (databaseStackProps Map.empty \<lparr>vpc = []\<rparr>) \<noteq> ''8.0.28''
   \<and> repoName (ecrStackProps Map.empty) \<noteq> ''webapp-core-app''"
  by (simp add: databaseStackProps_def ecrStackProps_def str_or_def app_projectName_def)

end
